theory Spec2Isabelle
  imports Main
begin

section \<open>JSON values and JavaScript string conversion\<close>

text \<open>
  Values read from the contract document and from HTTP responses are JSON values.
  A JavaScript object is an association list in \<open>Object.entries\<close> order. JSON numbers
  are modelled as integers (\<open>1.0\<close> and \<open>1\<close> are the same JavaScript number).
  A field that may be absent (\<open>undefined\<close>) is an \<open>option\<close>; JSON \<open>null\<close> is
  the value \<open>JNull\<close>, which is different from absence.
\<close>

datatype json =
    JNull
  | JBool bool
  | JNum int
  | JStr string
  | JArr "json list"
  | JObj "(string \<times> json) list"

text \<open>\<open>obj[k] = v\<close> on an object: an existing key keeps its position, a new key is appended.\<close>

fun setProperty :: "(string \<times> 'a) list \<Rightarrow> string \<times> 'a \<Rightarrow> (string \<times> 'a) list" where
  "setProperty [] kv = [kv]"
| "setProperty ((k', v') # r) kv =
     (if k' = fst kv then (k', snd kv) # r else (k', v') # setProperty r kv)"

definition digitChar :: "nat \<Rightarrow> char" where
  "digitChar n = ''0123456789'' ! n"

text \<open>\<open>Number.prototype.toString\<close> on a non-negative integer: its decimal digits.\<close>

fun toString_nat :: "nat \<Rightarrow> string" where
  "toString_nat n =
     (if n < 10 then [digitChar n] else toString_nat (n div 10) @ [digitChar (n mod 10)])"

declare toString_nat.simps [simp del]

definition toString_int :: "int \<Rightarrow> string" where
  "toString_int i = (if i < 0 then CHR ''-'' # toString_nat (nat (- i)) else toString_nat (nat i))"

text \<open>\<open>Array.prototype.join\<close> on strings.\<close>

fun join :: "string \<Rightarrow> string list \<Rightarrow> string" where
  "join sep [] = []"
| "join sep [x] = x"
| "join sep (x # y # r) = x @ sep @ join sep (y # r)"

text \<open>
  \<open>String(value)\<close>: an array is its elements joined by commas, \<open>null\<close> elements
  giving the empty string; a plain object is \<open>[object Object]\<close>.
\<close>

fun String_of :: "json \<Rightarrow> string" where
  "String_of JNull = ''null''"
| "String_of (JBool b) = (if b then ''true'' else ''false'')"
| "String_of (JNum n) = toString_int n"
| "String_of (JStr s) = s"
| "String_of (JArr xs) =
     join '','' (map (\<lambda>x. case x of JNull \<Rightarrow> [] | _ \<Rightarrow> String_of x) xs)"
| "String_of (JObj kvs) = ''[object Object]''"

text \<open>
  \<open>String.prototype.replace\<close> with a string pattern: only the first occurrence is
  replaced, and the replacement text is expanded by \<open>GetSubstitution\<close>
  (\<open>$$\<close>, \<open>$&\<close>, \<open>$`\<close>, \<open>$'\<close>; there are no capture groups).
\<close>

fun getSubstitution :: "string \<Rightarrow> string \<Rightarrow> string \<Rightarrow> string \<Rightarrow> string" where
  "getSubstitution matched preceding following [] = []"
| "getSubstitution matched preceding following [c] = [c]"
| "getSubstitution matched preceding following (c # d # r) =
     (if c = CHR ''$'' \<and> d = CHR ''$'' then CHR ''$'' # getSubstitution matched preceding following r
      else if c = CHR ''$'' \<and> d = CHR ''&'' then matched @ getSubstitution matched preceding following r
      else if c = CHR ''$'' \<and> d = CHR 0x60 then preceding @ getSubstitution matched preceding following r
      else if c = CHR ''$'' \<and> d = CHR 0x27 then following @ getSubstitution matched preceding following r
      else c # getSubstitution matched preceding following (d # r))"

fun replaceFrom :: "string \<Rightarrow> string \<Rightarrow> string \<Rightarrow> string \<Rightarrow> string" where
  "replaceFrom preceding s pat rep =
     (if take (length pat) s = pat
      then preceding @ getSubstitution pat preceding (drop (length pat) s) rep @ drop (length pat) s
      else (case s of [] \<Rightarrow> preceding | c # cs \<Rightarrow> replaceFrom (preceding @ [c]) cs pat rep))"

declare replaceFrom.simps [simp del]

definition replace :: "string \<Rightarrow> string \<Rightarrow> string \<Rightarrow> string" where
  "replace s pat rep = replaceFrom [] s pat rep"

section \<open>Schemas and the example synthesizer\<close>

text \<open>The fields of an OpenAPI schema object that \<open>api-validator.ts\<close> reads.\<close>

datatype schema = Schema
  (s_example: "json option")
  (s_default: "json option")
  (s_enum: "json list option")
  (s_type: "string option")
  (s_format: "string option")
  (s_minLength: "nat option")
  (s_minimum: "int option")
  (s_items: "schema option")
  (s_properties: "(string \<times> schema) list option")
  (s_required: "string list option")

text \<open>
  \<open>generateExampleFromSchema\<close> and \<open>generateObjectExample\<close> (lines 185--243).
  \<open>if (schema.minLength)\<close> is a truthiness test: it fails for an absent and for a
  zero \<open>minLength\<close>. The \<open>switch\<close> on \<open>schema.type\<close> is the chain of tests on \<open>ty\<close>.
\<close>

fun generateExampleFromSchema :: "schema \<Rightarrow> json"
  and generateObjectExample :: "schema \<Rightarrow> (string \<times> json) list" where
  "generateExampleFromSchema (Schema ex df en ty fmt minLen minim items props req) =
    (case ex of Some v \<Rightarrow> v | None \<Rightarrow>
    (case df of Some v \<Rightarrow> v | None \<Rightarrow>
    (case en of Some (e # es) \<Rightarrow> e | _ \<Rightarrow>
     if ty = Some ''string'' then
       (if fmt = Some ''date'' then JStr ''2024-01-01''
        else if fmt = Some ''date-time'' then JStr ''2024-01-01T00:00:00Z''
        else if fmt = Some ''email'' then JStr ''test@example.com''
        else if fmt = Some ''uuid'' then JStr ''550e8400-e29b-41d4-a716-446655440000''
        else if fmt = Some ''uri'' then JStr ''https://example.com''
        else (case minLen of
                Some n \<Rightarrow> if n \<noteq> 0 then JStr (replicate n CHR ''x'') else JStr ''string''
              | None \<Rightarrow> JStr ''string''))
     else if ty = Some ''integer'' then (case minim of Some m \<Rightarrow> JNum m | None \<Rightarrow> JNum 1)
     else if ty = Some ''number'' then (case minim of Some m \<Rightarrow> JNum m | None \<Rightarrow> JNum 1)
     else if ty = Some ''boolean'' then JBool True
     else if ty = Some ''array'' then
       (case items of
          Some it \<Rightarrow> JArr [generateExampleFromSchema it]
        | None \<Rightarrow> JArr [])
     else if ty = Some ''object'' then
       JObj (generateObjectExample (Schema ex df en ty fmt minLen minim items props req))
     else JNull)))"
| "generateObjectExample (Schema ex df en ty fmt minLen minim items props req) =
    (case props of
       None \<Rightarrow> []
     | Some ps \<Rightarrow>
         foldl setProperty []
           (map (\<lambda>(propName, prop). (propName, generateExampleFromSchema prop))
             (filter (\<lambda>(propName, prop).
                        propName \<in> set (case req of None \<Rightarrow> [] | Some r \<Rightarrow> r)
                        \<or> s_example prop \<noteq> None) ps)))"

section \<open>Operations, parameters and path resolution\<close>

record example_object =
  eo_value :: "json option"

record parameter =
  p_name :: string
  p_in :: string
  p_required :: bool
  p_example :: "json option"
  p_examples :: "(string \<times> example_object) list option"
  p_schema :: "schema option"

record media_type =
  m_example :: "json option"
  m_examples :: "(string \<times> example_object) list option"
  m_schema :: "schema option"

record request_body =
  rb_content :: "(string \<times> media_type) list option"

record header_object =
  h_required :: bool
  h_schema :: "schema option"

record response_object =
  r_headers :: "(string \<times> header_object) list option"
  r_content :: "(string \<times> media_type) list option"

record operation =
  op_parameters :: "parameter list option"
  op_requestBody :: "request_body option"
  op_responses :: "(string \<times> response_object) list option"

text \<open>
  A path item: its own parameters and the operations stored under its other keys
  (\<open>get\<close>, \<open>post\<close>, \<open>options\<close>, ...).
\<close>

record path_item =
  pi_parameters :: "parameter list option"
  pi_operations :: "(string \<times> operation) list"


text \<open>\<open>x || []\<close> on an optional array.\<close>

definition orEmpty :: "'a list option \<Rightarrow> 'a list" where
  "orEmpty xs = (case xs of None \<Rightarrow> [] | Some ys \<Rightarrow> ys)"

text \<open>
  \<open>Object.values(examples)[0]\<close> followed by the test
  \<open>firstExample && 'value' in firstExample\<close>, as in \<open>getParameterExample\<close> and
  \<open>extractBodyExample\<close>.
\<close>

definition firstExampleValue :: "(string \<times> example_object) list option \<Rightarrow> json option" where
  "firstExampleValue exs =
     (case exs of
        None \<Rightarrow> None
      | Some [] \<Rightarrow> None
      | Some ((k, firstExample) # r) \<Rightarrow> eo_value firstExample)"

text \<open>\<open>getParameterExample\<close> (lines 155--180); \<open>None\<close> is \<open>undefined\<close>.\<close>

definition getParameterExample :: "parameter \<Rightarrow> json option" where
  "getParameterExample param =
     (case p_example param of
        Some v \<Rightarrow> Some v
      | None \<Rightarrow>
         (case firstExampleValue (p_examples param) of
            Some v \<Rightarrow> Some v
          | None \<Rightarrow>
             (case p_schema param of
                Some s \<Rightarrow>
                  (case s_example s of
                     Some v \<Rightarrow> Some v
                   | None \<Rightarrow>
                      (case s_default s of
                         Some v \<Rightarrow> Some v
                       | None \<Rightarrow> Some (generateExampleFromSchema s)))
              | None \<Rightarrow> None)))"

text \<open>
  \<open>path.match(/\{([^}]+)\}/g)\<close>: the non-overlapping matches from left to right. At an
  opening brace the greedy class takes every character up to the next closing brace;
  the match needs at least one such character and the closing brace. The empty list
  stands for \<open>null\<close>.
\<close>

function pathParamMatches :: "string \<Rightarrow> string list" where
  "pathParamMatches [] = []"
| "pathParamMatches (c # cs) =
    (if c = CHR ''{'' then
       (let body = takeWhile (\<lambda>x. x \<noteq> CHR ''}'') cs;
            rest = dropWhile (\<lambda>x. x \<noteq> CHR ''}'') cs
        in if body \<noteq> [] \<and> rest \<noteq> []
           then (c # body @ ''}'') # pathParamMatches (tl rest)
           else pathParamMatches cs)
     else pathParamMatches cs)"
  by pat_completeness auto
termination
  by (relation "measure length")
     (auto simp: less_Suc_eq_le intro: le_trans [OF diff_le_self length_dropWhile_le])

text \<open>\<open>match.slice(1, -1)\<close>.\<close>

definition slice1 :: "string \<Rightarrow> string" where
  "slice1 m = butlast (tl m)"

record resolve_result =
  resolvedPath :: string
  skipped :: bool
  skipReason :: "string option"

text \<open>The combined parameter list of lines 120 and 312: path-item parameters first.\<close>

definition allParameters :: "operation \<Rightarrow> path_item \<Rightarrow> parameter list" where
  "allParameters operation pathItem =
     orEmpty (pi_parameters pathItem) @ orEmpty (op_parameters operation)"

text \<open>The \<open>allParameters.find\<close> call of lines 124--126.\<close>

definition findPathParam :: "parameter list \<Rightarrow> string \<Rightarrow> parameter option" where
  "findPathParam params paramName =
     find (\<lambda>p. p_name p = paramName \<and> p_in p = ''path'') params"

text \<open>The \<open>for\<close> loop of \<open>resolvePath\<close> (lines 122--147), with its early returns.\<close>

fun resolveLoop :: "parameter list \<Rightarrow> string \<Rightarrow> string \<Rightarrow> string list \<Rightarrow> resolve_result" where
  "resolveLoop params path rpath [] =
     \<lparr>resolvedPath = rpath, skipped = False, skipReason = None\<rparr>"
| "resolveLoop params path rpath (m # ms) =
     (let paramName = slice1 m in
      case findPathParam params paramName of
        None \<Rightarrow>
          \<lparr>resolvedPath = path, skipped = True,
           skipReason = Some (''Missing path parameter definition: '' @ paramName)\<rparr>
      | Some param \<Rightarrow>
          (case getParameterExample param of
             None \<Rightarrow>
               \<lparr>resolvedPath = path, skipped = True,
                skipReason = Some (''No example value for path parameter: '' @ paramName)\<rparr>
           | Some exampleValue \<Rightarrow>
               resolveLoop params path (replace rpath m (String_of exampleValue)) ms))"

definition resolvePath :: "string \<Rightarrow> operation \<Rightarrow> path_item \<Rightarrow> resolve_result" where
  "resolvePath path operation pathItem =
     (case pathParamMatches path of
        [] \<Rightarrow> \<lparr>resolvedPath = path, skipped = False, skipReason = None\<rparr>
      | ms \<Rightarrow> resolveLoop (allParameters operation pathItem) path path ms)"

text \<open>\<open>buildQueryParams\<close> (lines 307--328): one iteration, then the loop.\<close>

definition queryStep :: "(string \<times> string) list \<Rightarrow> parameter \<Rightarrow> (string \<times> string) list" where
  "queryStep params param =
     (if p_in param = ''query'' then
        (if p_required param \<or> p_example param \<noteq> None then
           (case getParameterExample param of
              Some v \<Rightarrow> setProperty params (p_name param, String_of v)
            | None \<Rightarrow> params)
         else params)
      else params)"

definition buildQueryParams :: "operation \<Rightarrow> path_item \<Rightarrow> (string \<times> string) list" where
  "buildQueryParams operation pathItem = foldl queryStep [] (allParameters operation pathItem)"

section \<open>Request body\<close>

text \<open>\<open>extractBodyExample\<close> (lines 282--302); the last resort is the empty object.\<close>

definition extractBodyExample :: "media_type \<Rightarrow> json" where
  "extractBodyExample mediaType =
     (case m_example mediaType of
        Some v \<Rightarrow> v
      | None \<Rightarrow>
         (case firstExampleValue (m_examples mediaType) of
            Some v \<Rightarrow> v
          | None \<Rightarrow>
             (case m_schema mediaType of
                Some s \<Rightarrow> generateExampleFromSchema s
              | None \<Rightarrow> JObj [])))"

record request_body_data =
  rbd_body :: json
  rbd_contentType :: string

text \<open>\<open>buildRequestBody\<close> (lines 248--277); \<open>None\<close> is \<open>null\<close>.\<close>

definition buildRequestBody :: "operation \<Rightarrow> request_body_data option" where
  "buildRequestBody operation =
     (case op_requestBody operation of
        None \<Rightarrow> None
      | Some requestBody \<Rightarrow>
         (case rb_content requestBody of
            None \<Rightarrow> None
          | Some content \<Rightarrow>
             (case map_of content ''application/json'' of
                Some jsonContent \<Rightarrow>
                  Some \<lparr>rbd_body = extractBodyExample jsonContent,
                        rbd_contentType = ''application/json''\<rparr>
              | None \<Rightarrow>
                 (case map_of content ''application/x-www-form-urlencoded'' of
                    Some formContent \<Rightarrow>
                      Some \<lparr>rbd_body = extractBodyExample formContent,
                            rbd_contentType = ''application/x-www-form-urlencoded''\<rparr>
                  | None \<Rightarrow> None))))"

section \<open>Response conformance\<close>

text \<open>
  The schema evaluator (Ajv) is an external collaborator and a parameter of the model:
  \<open>ajv schema value\<close> is the pair of what \<open>validate(value)\<close> returns and of
  \<open>validate.errors\<close> afterwards (\<open>None\<close> for \<open>null\<close>), for
  \<open>validate = ajv.compile(schema)\<close>. Compilation is taken to succeed.
\<close>

record ajv_error =
  instancePath :: string
  message :: "string option"

type_synonym ajv = "schema \<Rightarrow> json \<Rightarrow> bool \<times> ajv_error list option"

record status_validation =
  sv_valid :: bool
  sv_error :: "string option"

text \<open>\<open>`${statusStr[0]}XX`\<close>.\<close>

definition wildcardKey :: "string \<Rightarrow> string" where
  "wildcardKey statusStr =
     (case statusStr of [] \<Rightarrow> ''undefinedXX'' | c # r \<Rightarrow> c # ''XX'')"

text \<open>\<open>validateStatusCode\<close> (lines 479--500).\<close>

definition validateStatusCode :: "nat \<Rightarrow> operation \<Rightarrow> status_validation" where
  "validateStatusCode statusCode operation =
     (case op_responses operation of
        None \<Rightarrow> \<lparr>sv_valid = True, sv_error = None\<rparr>
      | Some responses \<Rightarrow>
         (let statusStr = toString_nat statusCode;
              hasExactMatch = (map_of responses statusStr \<noteq> None);
              hasWildcardMatch = (map_of responses (wildcardKey statusStr) \<noteq> None);
              hasDefaultMatch = (map_of responses ''default'' \<noteq> None)
          in if \<not> hasExactMatch \<and> \<not> hasWildcardMatch \<and> \<not> hasDefaultMatch
             then \<lparr>sv_valid = False,
                   sv_error = Some (''Unexpected status code '' @ toString_nat statusCode
                                    @ '' - not defined in spec'')\<rparr>
             else \<lparr>sv_valid = True, sv_error = None\<rparr>))"

text \<open>
  \<open>getResponseSpec\<close> (lines 505--518). A declared response is an object, hence
  truthy: \<open>a || b\<close> is \<open>a\<close> when the key is present.
\<close>

definition getResponseSpec :: "nat \<Rightarrow> operation \<Rightarrow> response_object option" where
  "getResponseSpec statusCode operation =
     (case op_responses operation of
        None \<Rightarrow> None
      | Some responses \<Rightarrow>
         (let statusStr = toString_nat statusCode in
          case map_of responses statusStr of
            Some r \<Rightarrow> Some r
          | None \<Rightarrow>
             (case map_of responses (wildcardKey statusStr) of
                Some r \<Rightarrow> Some r
              | None \<Rightarrow> map_of responses ''default'')))"

text \<open>
  \<open>String.prototype.toLowerCase\<close> on the ASCII letters, of which header names
  are made.
\<close>

definition lowerChar :: "char \<Rightarrow> char" where
  "lowerChar c =
     (case map_of (zip ''ABCDEFGHIJKLMNOPQRSTUVWXYZ'' ''abcdefghijklmnopqrstuvwxyz'') c of
        Some l \<Rightarrow> l
      | None \<Rightarrow> c)"

definition toLowerCase :: "string \<Rightarrow> string" where
  "toLowerCase s = map lowerChar s"

record header_validation_error =
  hve_header :: string
  hve_message :: string

record header_validation =
  hv_valid :: bool
  hv_errors :: "header_validation_error list"

text \<open>
  One iteration of the loop of \<open>validateResponseHeaders\<close> (lines 533--559): the errors
  it pushes. In \<open>join\<close> an undefined message is the empty string.
\<close>

definition headerStep ::
  "ajv \<Rightarrow> (string \<times> json) list \<Rightarrow> string \<times> header_object \<Rightarrow> header_validation_error list" where
  "headerStep ajv headers entry =
     (let headerName = fst entry; spec = snd entry;
          headerValue = map_of headers (toLowerCase headerName)
      in if h_required spec \<and> headerValue = None
         then [\<lparr>hve_header = headerName, hve_message = ''Required header is missing''\<rparr>]
         else
          (case (headerValue, h_schema spec) of
             (Some v, Some schema) \<Rightarrow>
               (case ajv schema v of
                  (False, Some errs) \<Rightarrow>
                    [\<lparr>hve_header = headerName,
                      hve_message = join '', ''
                        (map (\<lambda>e. case message e of None \<Rightarrow> [] | Some m \<Rightarrow> m) errs)\<rparr>]
                | _ \<Rightarrow> [])
           | _ \<Rightarrow> []))"

text \<open>\<open>validateResponseHeaders\<close> (lines 523--565).\<close>

definition validateResponseHeaders ::
  "ajv \<Rightarrow> (string \<times> json) list \<Rightarrow> response_object \<Rightarrow> header_validation" where
  "validateResponseHeaders ajv headers responseSpec =
     (case r_headers responseSpec of
        None \<Rightarrow> \<lparr>hv_valid = True, hv_errors = []\<rparr>
      | Some decls \<Rightarrow>
         (let errors = concat (map (headerStep ajv headers) decls)
          in \<lparr>hv_valid = (length errors = 0), hv_errors = errors\<rparr>))"

record body_validation =
  bv_valid :: bool
  bv_details :: "string list option"

text \<open>
  \<open>validateResponseBody\<close> (lines 570--604). In the template literal an undefined
  message prints as \<open>undefined\<close>; an empty \<open>instancePath\<close> is falsy.
\<close>

definition bodyDetail :: "ajv_error \<Rightarrow> string" where
  "bodyDetail err =
     ''Body '' @ (if instancePath err = [] then ''root'' else instancePath err) @ '': ''
       @ (case message err of None \<Rightarrow> ''undefined'' | Some m \<Rightarrow> m)"

definition validateResponseBody :: "ajv \<Rightarrow> json \<Rightarrow> response_object \<Rightarrow> body_validation" where
  "validateResponseBody ajv responseData responseSpec =
     (case r_content responseSpec of
        None \<Rightarrow> \<lparr>bv_valid = True, bv_details = None\<rparr>
      | Some content \<Rightarrow>
         (case map_of content ''application/json'' of
            None \<Rightarrow> \<lparr>bv_valid = True, bv_details = None\<rparr>
          | Some jsonContent \<Rightarrow>
             (case m_schema jsonContent of
                None \<Rightarrow> \<lparr>bv_valid = True, bv_details = None\<rparr>
              | Some schema \<Rightarrow>
                 (case ajv schema responseData of
                    (False, Some errs) \<Rightarrow>
                      \<lparr>bv_valid = False, bv_details = Some (map bodyDetail errs)\<rparr>
                  | _ \<Rightarrow> \<lparr>bv_valid = True, bv_details = None\<rparr>))))"

record axios_response =
  resp_status :: nat
  resp_headers :: "(string \<times> json) list"
  resp_data :: json

record full_validation =
  fv_valid :: bool
  fv_error :: "string option"
  fv_details :: "string list option"

definition headerDetail :: "header_validation_error \<Rightarrow> string" where
  "headerDetail e = ''Header '' @ [CHR 0x27] @ hve_header e @ [CHR 0x27] @ '': '' @ hve_message e"

text \<open>The object returned at lines 448--452 and 469--473.\<close>

definition fullResult :: "bool \<Rightarrow> string list \<Rightarrow> full_validation" where
  "fullResult hasErrors details =
     \<lparr>fv_valid = (\<not> hasErrors),
      fv_error = (if hasErrors then Some ''Response validation failed'' else None),
      fv_details = (if length details > 0 then Some details else None)\<rparr>"

text \<open>\<open>validateFullResponse\<close> (lines 427--474).\<close>

definition validateFullResponse :: "ajv \<Rightarrow> axios_response \<Rightarrow> operation \<Rightarrow> full_validation" where
  "validateFullResponse ajv response operation =
     (case op_responses operation of
        None \<Rightarrow> \<lparr>fv_valid = True, fv_error = None, fv_details = None\<rparr>
      | Some responses \<Rightarrow>
         (let statusValidation = validateStatusCode (resp_status response) operation;
              hasErrors1 = (\<not> sv_valid statusValidation);
              details1 = (if \<not> sv_valid statusValidation
                          then (case sv_error statusValidation of Some e \<Rightarrow> [e] | None \<Rightarrow> [])
                          else [])
          in case getResponseSpec (resp_status response) operation of
               None \<Rightarrow> fullResult hasErrors1 details1
             | Some responseSpec \<Rightarrow>
                (let headerValidation =
                       validateResponseHeaders ajv (resp_headers response) responseSpec;
                     hasErrors2 = (hasErrors1 \<or> \<not> hv_valid headerValidation);
                     details2 = (if \<not> hv_valid headerValidation
                                 then details1 @ map headerDetail (hv_errors headerValidation)
                                 else details1);
                     bodyValidation = validateResponseBody ajv (resp_data response) responseSpec;
                     hasErrors3 = (hasErrors2 \<or> \<not> bv_valid bodyValidation);
                     details3 = (if \<not> bv_valid bodyValidation
                                 then (case bv_details bodyValidation of
                                         Some d \<Rightarrow> details2 @ d
                                       | None \<Rightarrow> details2)
                                 else details2)
                 in fullResult hasErrors3 details3)))"

section \<open>Endpoint runner and contract walker\<close>

text \<open>The fields of an \<open>ApiValidator\<close> instance that \<open>testEndpoint\<close> reads.\<close>

record validator =
  baseUrl :: string
  headers :: "(string \<times> string) list"
  timeout :: nat

text \<open>The Axios request configuration; \<open>validateStatus\<close> is the constant \<open>true\<close>.\<close>

record request_config =
  rc_method :: string
  rc_url :: string
  rc_headers :: "(string \<times> string) list"
  rc_params :: "(string \<times> string) list option"
  rc_timeout :: nat
  rc_data :: "json option"

text \<open>
  The request built by \<open>testEndpoint\<close> (lines 353--380) for a resolved path: the
  object spread copies the caller's headers, then \<open>Accept\<close> is set; the body and its
  \<open>Content-Type\<close> are added for \<open>post\<close>, \<open>put\<close> and \<open>patch\<close> only.
\<close>

definition requestConfig ::
  "validator \<Rightarrow> string \<Rightarrow> string \<Rightarrow> operation \<Rightarrow> path_item \<Rightarrow> request_config" where
  "requestConfig this rpath method operation pathItem =
     (let url = baseUrl this @ rpath;
          queryParams = buildQueryParams operation pathItem;
          requestBodyData = buildRequestBody operation;
          config = \<lparr>rc_method = method, rc_url = url,
                    rc_headers = setProperty (headers this) (''Accept'', ''application/json''),
                    rc_params = (if length queryParams > 0 then Some queryParams else None),
                    rc_timeout = timeout this,
                    rc_data = None\<rparr>
      in case requestBodyData of
           Some rbd \<Rightarrow>
             if method \<in> set [''post'', ''put'', ''patch'']
             then config\<lparr>rc_data := Some (rbd_body rbd),
                         rc_headers := setProperty (rc_headers config)
                                         (''Content-Type'', rbd_contentType rbd)\<rparr>
             else config
         | None \<Rightarrow> config)"

text \<open>\<open>ApiValidationResult\<close>; its field \<open>method\<close> is \<open>httpMethod\<close> here.\<close>

record api_validation_result =
  path :: string
  httpMethod :: string
  valid :: bool
  statusCode :: "nat option"
  responseTime :: int
  error :: "string option"
  details :: "string list option"

text \<open>What the awaited \<open>axios(config)\<close> can throw.\<close>

datatype thrown =
    AxiosError (ae_code: "string option") (ae_message: string)
  | OtherThrown

text \<open>
  The outside world is a state \<open>'w\<close>: \<open>now\<close> reads \<open>Date.now()\<close> from it, and the
  HTTP transport maps a request and a state to what the call gives and the state after it.
\<close>

type_synonym 'w clock = "'w \<Rightarrow> int"
type_synonym 'w transport = "request_config \<Rightarrow> 'w \<Rightarrow> (thrown + axios_response) \<times> 'w"

text \<open>\<open>testEndpoint\<close> (lines 330--422).\<close>

definition testEndpoint ::
  "validator \<Rightarrow> ajv \<Rightarrow> 'w clock \<Rightarrow> 'w transport \<Rightarrow>
   string \<Rightarrow> string \<Rightarrow> operation \<Rightarrow> path_item \<Rightarrow> 'w \<Rightarrow> api_validation_result \<times> 'w" where
  "testEndpoint this ajv now axios pth meth operation pathItem w =
     (let startTime = now w;
          r = resolvePath pth operation pathItem
      in if skipped r
         then (\<lparr>path = pth, httpMethod = meth, valid = True, statusCode = Some 0, responseTime = 0,
                error = Some (''Skipped - ''
                         @ (case skipReason r of None \<Rightarrow> ''undefined'' | Some x \<Rightarrow> x)),
                details = None\<rparr>, w)
         else
          (case axios (requestConfig this (resolvedPath r) meth operation pathItem) w of
             (Inr response, w') \<Rightarrow>
               (let validationResult = validateFullResponse ajv response operation
                in (\<lparr>path = pth, httpMethod = meth, valid = fv_valid validationResult,
                     statusCode = Some (resp_status response),
                     responseTime = now w' - startTime,
                     error = fv_error validationResult,
                     details = fv_details validationResult\<rparr>, w'))
           | (Inl (AxiosError code msg), w') \<Rightarrow>
               (\<lparr>path = pth, httpMethod = meth, valid = False, statusCode = None,
                 responseTime = now w' - startTime,
                 error = Some (if code = Some ''ECONNREFUSED''
                               then ''Connection refused - is the server running?'' else msg),
                 details = None\<rparr>, w')
           | (Inl OtherThrown, w') \<Rightarrow>
               (\<lparr>path = pth, httpMethod = meth, valid = False, statusCode = None,
                 responseTime = now w' - startTime,
                 error = Some ''Unknown error occurred'', details = None\<rparr>, w')))"







section \<open>Notions used in the statements\<close>

text \<open>A schema on which none of the rules 1--3 of the synthesizer applies.\<close>

definition noExplicitValue :: "schema \<Rightarrow> bool" where
  "noExplicitValue s \<longleftrightarrow>
     s_example s = None \<and> s_default s = None \<and> (s_enum s = None \<or> s_enum s = Some [])"

definition recognizedFormats :: "string list" where
  "recognizedFormats = [''date'', ''date-time'', ''email'', ''uuid'', ''uri'']"


text \<open>
  The declared properties of an object schema that are listed in \<open>required\<close> or carry
  an explicit example.
\<close>

definition included :: "schema \<Rightarrow> (string \<times> schema) list" where
  "included s =
     filter (\<lambda>(n, p). n \<in> set (orEmpty (s_required s)) \<or> s_example p \<noteq> None)
       (orEmpty (s_properties s))"



text \<open>
  Following the specification's words for response selection: the selectors of a status
  code in priority order (exact, class wildcard, default), tried in that order, the first
  one declared winning.
\<close>

definition responseSelectors :: "nat \<Rightarrow> string list" where
  "responseSelectors st = [toString_nat st, wildcardKey (toString_nat st), ''default'']"

fun firstMatch :: "(string \<times> 'a) list \<Rightarrow> string list \<Rightarrow> 'a option" where
  "firstMatch rs [] = None"
| "firstMatch rs (k # ks) = (case map_of rs k of Some r \<Rightarrow> Some r | None \<Rightarrow> firstMatch rs ks)"

text \<open>
  The violations of each of the three checks of \<open>validateFullResponse\<close>, as the callee
  reports them. The header and the body check are relative to the response spec that
  \<open>getResponseSpec\<close> selects; without one there is nothing they can violate.
\<close>

definition statusViolations :: "axios_response \<Rightarrow> operation \<Rightarrow> string list" where
  "statusViolations response operation =
     (case sv_error (validateStatusCode (resp_status response) operation) of
        None \<Rightarrow> []
      | Some e \<Rightarrow> [e])"

definition headerViolations :: "ajv \<Rightarrow> axios_response \<Rightarrow> operation \<Rightarrow> string list" where
  "headerViolations ajv response operation =
     (case getResponseSpec (resp_status response) operation of
        None \<Rightarrow> []
      | Some responseSpec \<Rightarrow>
          map headerDetail
            (hv_errors (validateResponseHeaders ajv (resp_headers response) responseSpec)))"

definition bodyViolations :: "ajv \<Rightarrow> axios_response \<Rightarrow> operation \<Rightarrow> string list" where
  "bodyViolations ajv response operation =
     (case getResponseSpec (resp_status response) operation of
        None \<Rightarrow> []
      | Some responseSpec \<Rightarrow>
          (case bv_details (validateResponseBody ajv (resp_data response) responseSpec) of
             None \<Rightarrow> []
           | Some d \<Rightarrow> d))"

text \<open>
  Two facts about Ajv that the statements on conformance rely on: a value it rejects
  comes with at least one error, and its messages describe schema violations, so their
  concatenation is never the validator's own text for a missing header.
\<close>

definition reportsErrors :: "ajv \<Rightarrow> bool" where
  "reportsErrors ajv \<longleftrightarrow> (\<forall>s v. ajv s v \<noteq> (False, Some []))"

definition neverSaysMissing :: "ajv \<Rightarrow> bool" where
  "neverSaysMissing ajv \<longleftrightarrow>
     (\<forall>s v errs. ajv s v = (False, Some errs) \<longrightarrow>
        join '', '' (map (\<lambda>e. case message e of None \<Rightarrow> [] | Some m \<Rightarrow> m) errs)
          \<noteq> ''Required header is missing'')"

definition missingHeader :: "string \<Rightarrow> header_validation_error" where
  "missingHeader n = \<lparr>hve_header = n, hve_message = ''Required header is missing''\<rparr>"



section \<open>Sample contracts\<close>

definition integerSchema :: "json option \<Rightarrow> json option \<Rightarrow> json list option \<Rightarrow> schema" where
  "integerSchema ex df en = Schema ex df en (Some ''integer'') None None None None None None"


definition stringSchema :: "nat option \<Rightarrow> schema" where
  "stringSchema minLen = Schema None None None (Some ''string'') None minLen None None None None"

definition anySchema :: schema where
  "anySchema = Schema None None None None None None None None None None"

definition userSchema :: "json option \<Rightarrow> schema" where
  "userSchema ex =
     Schema ex None None (Some ''object'') None None None None
       (Some [(''id'', integerSchema None None None),
              (''name'', stringSchema None),
              (''age'', integerSchema (Some (JNum 30)) None None)])
       (Some [''id''])"

definition idParam :: "string \<Rightarrow> json option \<Rightarrow> parameter" where
  "idParam loc ex =
     \<lparr>p_name = ''id'', p_in = loc, p_required = True, p_example = ex, p_examples = None,
      p_schema = None\<rparr>"


definition opWith :: "parameter list \<Rightarrow> operation" where
  "opWith ps = \<lparr>op_parameters = Some ps, op_requestBody = None, op_responses = None\<rparr>"

definition itemWith :: "parameter list \<Rightarrow> path_item" where
  "itemWith ps = \<lparr>pi_parameters = Some ps, pi_operations = []\<rparr>"

definition respNamed :: "string \<Rightarrow> response_object" where
  "respNamed n =
     \<lparr>r_headers = Some [(n, \<lparr>h_required = True, h_schema = None\<rparr>)], r_content = None\<rparr>"

definition opResponding :: "(string \<times> response_object) list \<Rightarrow> operation" where
  "opResponding rs = \<lparr>op_parameters = None, op_requestBody = None, op_responses = Some rs\<rparr>"

definition tieredResponses :: "(string \<times> response_object) list" where
  "tieredResponses =
     [(''404'', respNamed ''A''), (''4XX'', respNamed ''B''), (''default'', respNamed ''C'')]"

definition rateLimited :: response_object where
  "rateLimited =
     \<lparr>r_headers = Some [(''X-Rate-Limit'', \<lparr>h_required = True, h_schema = Some anySchema\<rparr>)],
      r_content = Some [(''application/json'',
                   \<lparr>m_example = None, m_examples = None, m_schema = Some anySchema\<rparr>)]\<rparr>"

text \<open>An evaluator that rejects \<open>null\<close> and accepts every other value.\<close>

definition nullRejectingAjv :: ajv where
  "nullRejectingAjv s v =
     (if v = JNull then (False, Some [\<lparr>instancePath = [], message = Some ''must be object''\<rparr>])
      else (True, None))"

definition bodyOp :: operation where
  "bodyOp =
     \<lparr>op_parameters = None,
      op_requestBody = Some \<lparr>rb_content = Some [(''application/json'',
         \<lparr>m_example = Some (JObj [(''name'', JStr ''Test User'')]), m_examples = None,
          m_schema = None\<rparr>)]\<rparr>,
      op_responses = None\<rparr>"

definition plainItem :: "(string \<times> operation) list \<Rightarrow> path_item" where
  "plainItem ops = \<lparr>pi_parameters = None, pi_operations = ops\<rparr>"

definition callerWith :: "(string \<times> string) list \<Rightarrow> validator" where
  "callerWith hs = \<lparr>baseUrl = ''http://localhost:3000'', headers = hs, timeout = 5000\<rparr>"

text \<open>A transport that refuses every connection; the state counts the calls.\<close>

definition refusing :: "nat transport" where
  "refusing config w = (Inl (AxiosError (Some ''ECONNREFUSED'') ''connect ECONNREFUSED''), Suc w)"

section \<open>The example synthesizer\<close>

lemma set_setProperty: "set (setProperty acc kv) \<subseteq> insert kv (set acc)"
proof (cases kv)
  case (Pair k v)
  show ?thesis unfolding Pair by (induction acc) (auto split: if_splits)
qed

lemma keys_setProperty: "fst ` set (setProperty acc kv) = insert (fst kv) (fst ` set acc)"
proof (induction acc)
  case Nil
  show ?case by simp
next
  case (Cons a acc)
  obtain k v where a: "a = (k, v)" by (cases a)
  show ?case
  proof (cases "k = fst kv")
    case True
    then show ?thesis by (auto simp: a)
  next
    case False
    have "fst ` set (setProperty (a # acc) kv) = insert k (fst ` set (setProperty acc kv))"
      using False by (simp add: a)
    also have "\<dots> = insert k (insert (fst kv) (fst ` set acc))"
      by (simp only: Cons.IH)
    finally show ?thesis by (auto simp: a)
  qed
qed

lemma map_of_setProperty:
  "map_of (setProperty xs (k, v)) k' = (if k' = k then Some v else map_of xs k')"
  by (induction xs) auto

lemma set_foldl_setProperty: "set (foldl setProperty acc xs) \<subseteq> set acc \<union> set xs"
proof (induction xs arbitrary: acc)
  case Nil
  show ?case by simp
next
  case (Cons x xs)
  have "set (foldl setProperty (setProperty acc x) xs) \<subseteq> set (setProperty acc x) \<union> set xs"
    by (rule Cons.IH)
  also have "\<dots> \<subseteq> insert x (set acc) \<union> set xs"
    using set_setProperty [of acc x] by blast
  finally show ?case by auto
qed

lemma keys_foldl_setProperty:
  "fst ` set (foldl setProperty acc xs) = fst ` set acc \<union> fst ` set xs"
  by (induction xs arbitrary: acc) (auto simp: keys_setProperty)

lemma generateObjectExample_unfold:
  "generateObjectExample s =
     foldl setProperty [] (map (\<lambda>(n, p). (n, generateExampleFromSchema p)) (included s))"
  by (cases s) (simp add: included_def orEmpty_def split: option.splits)

lemma generateObjectExample_keys:
  "fst ` set (generateObjectExample s) = fst ` set (included s)"
proof -
  have "fst ` set (map (\<lambda>(n, p). (n, generateExampleFromSchema p)) (included s))
        = fst ` set (included s)"
    by force
  then show ?thesis
    by (simp add: generateObjectExample_unfold keys_foldl_setProperty)
qed

lemma generateObjectExample_values:
  assumes "(n, v) \<in> set (generateObjectExample s)"
  shows "\<exists>p. (n, p) \<in> set (included s) \<and> v = generateExampleFromSchema p"
proof -
  from assms set_foldl_setProperty
  have "(n, v) \<in> set (map (\<lambda>(n, p). (n, generateExampleFromSchema p)) (included s))"
    unfolding generateObjectExample_unfold by fastforce
  then show ?thesis by auto
qed

lemma typeDirected_object:
  assumes "s_type s = Some ''object''" and "noExplicitValue s"
  shows "generateExampleFromSchema s = JObj (generateObjectExample s)"
  using assms unfolding noExplicitValue_def
  by (cases s) (auto simp del: generateObjectExample.simps)



text \<open>
  Claim C6, as stated, fails: an object schema that carries an explicit example is
  synthesized by rule 1, and the example may hold a property that is neither required
  nor declared. Here the value is \<open>{"nick": "al"}\<close> although \<open>nick\<close> is not a property
  of the schema and not in its \<open>required\<close> list.
\<close>

theorem object_example_counterexample:
  "s_type (userSchema (Some (JObj [(''nick'', JStr ''al'')]))) = Some ''object''
   \<and> ''nick'' \<notin> set (orEmpty (s_required (userSchema (Some (JObj [(''nick'', JStr ''al'')])))))
   \<and> ''nick'' \<notin> fst ` set (orEmpty (s_properties (userSchema (Some (JObj [(''nick'', JStr ''al'')])))))
   \<and> generateExampleFromSchema (userSchema (Some (JObj [(''nick'', JStr ''al'')])))
       = JObj [(''nick'', JStr ''al'')]"
  by (simp add: userSchema_def orEmpty_def)

text \<open>
  Claim C6, amended. The object rule \<open>generateObjectExample\<close> yields, for every schema,
  exactly the declared properties that are listed in \<open>required\<close> or carry an explicit
  example, each with the synthesized value of its own schema; and this is the synthesized
  value of every object schema that has no explicit example, no default and no non-empty
  enumeration.
\<close>

theorem object_synthesis_properties:
  "fst ` set (generateObjectExample s) = fst ` set (included s)
   \<and> (\<forall>(n, v) \<in> set (generateObjectExample s).
         \<exists>p. (n, p) \<in> set (included s) \<and> v = generateExampleFromSchema p)
   \<and> (s_type s = Some ''object'' \<and> noExplicitValue s \<longrightarrow>
         generateExampleFromSchema s = JObj (generateObjectExample s))"
proof (intro conjI impI)
  show "fst ` set (generateObjectExample s) = fst ` set (included s)"
    by (rule generateObjectExample_keys)
  show "\<forall>(n, v) \<in> set (generateObjectExample s).
      \<exists>p. (n, p) \<in> set (included s) \<and> v = generateExampleFromSchema p"
    using generateObjectExample_values by blast
  assume "s_type s = Some ''object'' \<and> noExplicitValue s"
  then show "generateExampleFromSchema s = JObj (generateObjectExample s)"
    by (intro typeDirected_object) auto
qed

theorem object_synthesis_properties_witness:
  "s_type (userSchema None) = Some ''object'' \<and> noExplicitValue (userSchema None)
   \<and> included (userSchema None)
       = [(''id'', integerSchema None None None), (''age'', integerSchema (Some (JNum 30)) None None)]
   \<and> generateObjectExample (userSchema None) = [(''id'', JNum 1), (''age'', JNum 30)]
   \<and> generateExampleFromSchema (userSchema None) = JObj [(''id'', JNum 1), (''age'', JNum 30)]"
proof -
  have t: "s_type (userSchema None) = Some ''object''" by (simp add: userSchema_def)
  have n: "noExplicitValue (userSchema None)" by (simp add: userSchema_def noExplicitValue_def)
  have i: "included (userSchema None)
       = [(''id'', integerSchema None None None), (''age'', integerSchema (Some (JNum 30)) None None)]"
    by (simp add: included_def userSchema_def orEmpty_def integerSchema_def stringSchema_def)
  have g: "generateObjectExample (userSchema None) = [(''id'', JNum 1), (''age'', JNum 30)]"
    by (simp add: userSchema_def integerSchema_def stringSchema_def)
  from object_synthesis_properties [where s = "userSchema None"] t n i g
  show ?thesis by simp
qed

text \<open>
  Claim C8, as stated, fails for a minimum length of zero: the constraint is set, yet
  the value is the literal \<open>string\<close> of length six and not the empty repetition, because
  the code tests \<open>minLength\<close> for truthiness.
\<close>

theorem minLength_zero_counterexample:
  "noExplicitValue (stringSchema (Some 0))
   \<and> s_type (stringSchema (Some 0)) = Some ''string''
   \<and> s_format (stringSchema (Some 0)) = None
   \<and> s_minLength (stringSchema (Some 0)) = Some 0
   \<and> generateExampleFromSchema (stringSchema (Some 0)) = JStr ''string''
   \<and> generateExampleFromSchema (stringSchema (Some 0)) \<noteq> JStr (replicate 0 CHR ''x'')"
  by (simp add: stringSchema_def noExplicitValue_def)

text \<open>
  Claim C8, amended. For a string schema with no explicit example, default or non-empty
  enumeration and no recognized format: a non-zero minimum length \<open>n\<close> gives the
  character \<open>x\<close> repeated exactly \<open>n\<close> times; a missing or zero minimum length gives the
  literal \<open>string\<close>.
\<close>

theorem string_synthesis_minLength:
  assumes "s_type s = Some ''string''"
    and "noExplicitValue s"
    and "s_format s \<notin> Some ` set recognizedFormats"
  shows "generateExampleFromSchema s =
           (case s_minLength s of
              Some n \<Rightarrow> if n = 0 then JStr ''string'' else JStr (replicate n CHR ''x'')
            | None \<Rightarrow> JStr ''string'')"
proof (cases s)
  case (Schema ex df en ty fmt minLen minim items props req)
  with assms show ?thesis
    unfolding noExplicitValue_def recognizedFormats_def
    by (auto simp del: generateObjectExample.simps split: option.splits)
qed

theorem string_synthesis_minLength_witness:
  "s_type (stringSchema (Some 3)) = Some ''string''
   \<and> noExplicitValue (stringSchema (Some 3))
   \<and> s_format (stringSchema (Some 3)) \<notin> Some ` set recognizedFormats
   \<and> generateExampleFromSchema (stringSchema (Some 3)) = JStr ''xxx''
   \<and> generateExampleFromSchema (stringSchema None) = JStr ''string''"
proof -
  have t: "s_type (stringSchema m) = Some ''string''" for m
    by (simp add: stringSchema_def)
  have n: "noExplicitValue (stringSchema m)" for m
    by (simp add: stringSchema_def noExplicitValue_def)
  have f: "s_format (stringSchema m) \<notin> Some ` set recognizedFormats" for m
    by (simp add: stringSchema_def)
  have m3: "s_minLength (stringSchema (Some 3)) = Some 3"
    and m0: "s_minLength (stringSchema None) = None"
    by (simp_all add: stringSchema_def)
  have r: "replicate 3 CHR ''x'' = ''xxx''" by (simp add: numeral_3_eq_3)
  show ?thesis
    using string_synthesis_minLength [OF t n f, of "Some 3"]
          string_synthesis_minLength [OF t n f, of None] t n f
    by (simp add: m3 m0 r)
qed

section \<open>Path and query parameters\<close>









text \<open>
  Claim C1 holds of the OpenAPI rule and of \<open>buildQueryParams\<close>, not of \<open>resolvePath\<close>.
  Both walk the list that puts the path-item parameters before the operation's. In
  \<open>buildQueryParams\<close> a later entry overwrites an earlier one of the same name, so the
  operation-level declaration wins; \<open>resolvePath\<close> takes the first match of \<open>find\<close>, so the
  path-item declaration wins. With \<open>id\<close> declared at both levels, example \<open>1\<close> on the
  path item and \<open>2\<close> on the operation, the template \<open>/users/{id}\<close> resolves to \<open>/users/1\<close>,
  while the same two declarations as query parameters send \<open>id=2\<close>.
\<close>

theorem resolvePath_prefers_path_item:
  "resolvePath ''/users/{id}'' (opWith [idParam ''path'' (Some (JNum 2))])
       (itemWith [idParam ''path'' (Some (JNum 1))])
     = \<lparr>resolvedPath = ''/users/1'', skipped = False, skipReason = None\<rparr>
   \<and> buildQueryParams (opWith [idParam ''query'' (Some (JNum 2))])
       (itemWith [idParam ''query'' (Some (JNum 1))]) = [(''id'', ''2'')]"
  by (simp add: resolvePath_def allParameters_def opWith_def itemWith_def idParam_def orEmpty_def
        slice1_def findPathParam_def getParameterExample_def toString_int_def toString_nat.simps
        digitChar_def replace_def replaceFrom.simps buildQueryParams_def queryStep_def)



section \<open>Response conformance\<close>

lemma toString_nat_three_digits:
  assumes "100 \<le> n" "n < 1000"
  shows "toString_nat n = [digitChar (n div 100), digitChar (n div 10 mod 10), digitChar (n mod 10)]"
proof -
  have a: "\<not> n < 10" "\<not> n div 10 < 10" "n div 10 div 10 < 10" using assms by auto
  have b: "n div 10 div 10 = n div 100" by (simp add: div_mult2_eq [symmetric])
  show ?thesis
    using a
    by (subst toString_nat.simps, simp, subst toString_nat.simps, simp,
        subst toString_nat.simps, simp add: b)
qed

lemma status_valid_iff:
  "sv_valid (validateStatusCode st operation) \<longleftrightarrow>
     op_responses operation = None \<or> getResponseSpec st operation \<noteq> None"
  by (auto simp: validateStatusCode_def getResponseSpec_def Let_def split: option.splits)

lemma status_error_iff:
  "sv_error (validateStatusCode st operation) = None \<longleftrightarrow> sv_valid (validateStatusCode st operation)"
  by (auto simp: validateStatusCode_def Let_def split: option.splits)

lemma validateFullResponse_matched:
  assumes "getResponseSpec (resp_status response) operation = Some r"
  shows "validateFullResponse ajv response operation =
     (let hv = validateResponseHeaders ajv (resp_headers response) r;
          bv = validateResponseBody ajv (resp_data response) r
      in fullResult (\<not> hv_valid hv \<or> \<not> bv_valid bv)
           ((if hv_valid hv then [] else map headerDetail (hv_errors hv))
            @ (if bv_valid bv then [] else (case bv_details bv of Some d \<Rightarrow> d | None \<Rightarrow> []))))"
proof -
  from assms obtain rs where rs: "op_responses operation = Some rs"
    by (auto simp: getResponseSpec_def split: option.splits)
  from assms have v: "sv_valid (validateStatusCode (resp_status response) operation)"
    by (simp add: status_valid_iff)
  show ?thesis
    by (simp add: validateFullResponse_def rs v assms Let_def split: option.splits)
qed

lemma hv_valid_iff: "hv_valid (validateResponseHeaders ajv hdrs r) \<longleftrightarrow>
    hv_errors (validateResponseHeaders ajv hdrs r) = []"
  by (simp add: validateResponseHeaders_def Let_def split: option.splits)

lemma bv_valid_details:
  "bv_valid (validateResponseBody ajv d r) \<Longrightarrow> bv_details (validateResponseBody ajv d r) = None"
  by (auto simp: validateResponseBody_def split: option.splits prod.splits bool.splits)

lemma bv_invalid_details:
  assumes "\<not> bv_valid (validateResponseBody ajv d r)"
  shows "\<exists>s errs. ajv s d = (False, Some errs)
           \<and> bv_details (validateResponseBody ajv d r) = Some (map bodyDetail errs)"
  using assms
  by (auto simp: validateResponseBody_def split: option.splits prod.splits bool.splits)

lemma status_violations_empty_iff:
  "statusViolations response operation = [] \<longleftrightarrow>
     sv_valid (validateStatusCode (resp_status response) operation)"
  by (simp add: statusViolations_def status_error_iff [symmetric] split: option.splits)

lemma fullResult_sel:
  "fv_valid (fullResult h ds) = (\<not> h)"
  "fv_error (fullResult h ds) = (if h then Some ''Response validation failed'' else None)"
  "fv_details (fullResult h ds) = (if ds = [] then None else Some ds)"
  by (simp_all add: fullResult_def)

lemma validateFullResponse_unmatched:
  assumes "getResponseSpec (resp_status response) operation = None"
  shows "validateFullResponse ajv response operation =
           fullResult (statusViolations response operation \<noteq> [])
             (statusViolations response operation)"
proof (cases "op_responses operation")
  case None
  then show ?thesis
    by (simp add: validateFullResponse_def statusViolations_def validateStatusCode_def
          fullResult_def)
next
  case (Some rs)
  with assms have nv: "\<not> sv_valid (validateStatusCode (resp_status response) operation)"
    by (simp add: status_valid_iff)
  then have "statusViolations response operation \<noteq> []"
    by (simp add: status_violations_empty_iff)
  then show ?thesis
    using nv by (simp add: validateFullResponse_def Some assms statusViolations_def Let_def)
qed

lemma headerStep_key:
  "map_of hdrs (toLowerCase n) = map_of hdrs' (toLowerCase n) \<Longrightarrow>
     headerStep ajv hdrs (n, spec) = headerStep ajv hdrs' (n, spec)"
  by (simp add: headerStep_def)

lemma headerStep_case_insensitive:
  "toLowerCase n = toLowerCase n' \<Longrightarrow>
     map hve_message (headerStep ajv hdrs (n, spec)) = map hve_message (headerStep ajv hdrs (n', spec))"
  by (auto simp: headerStep_def Let_def split: option.splits prod.splits bool.splits)

lemma headerStep_missing_only:
  assumes "neverSaysMissing ajv"
    and "missingHeader n \<in> set (headerStep ajv hdrs (n', spec'))"
  shows "n' = n \<and> map_of hdrs (toLowerCase n) = None"
proof (cases "h_required spec' \<and> map_of hdrs (toLowerCase n') = None")
  case True
  with assms(2) show ?thesis by (simp add: headerStep_def missingHeader_def)
next
  case False
  with assms(2) obtain sch v errs where "ajv sch v = (False, Some errs)"
    and "join '', '' (map (\<lambda>e. case message e of None \<Rightarrow> [] | Some m \<Rightarrow> m) errs)
           = ''Required header is missing''"
    by (simp add: headerStep_def missingHeader_def Let_def
          split: option.splits prod.splits bool.splits if_splits) metis+
  with assms(1) show ?thesis unfolding neverSaysMissing_def by blast
qed

lemma headerStep_missing:
  "h_required spec \<Longrightarrow> map_of hdrs (toLowerCase n) = None \<Longrightarrow>
     headerStep ajv hdrs (n, spec) = [missingHeader n]"
  by (simp add: headerStep_def missingHeader_def)

text \<open>
  Claim C2. For every operation and status code, \<open>getResponseSpec\<close> is the first declared
  selector among the exact status code, the class wildcard made of its first digit
  followed by \<open>XX\<close>, and \<open>default\<close>, tried in this order; the result is at most one
  response spec. The status check passes exactly when the operation declares no responses
  or some selector matches, and the spec so selected is the one that both the header and
  the body check of \<open>validateFullResponse\<close> receive.
\<close>

theorem getResponseSpec_priority:
  "getResponseSpec st operation =
     (case op_responses operation of
        None \<Rightarrow> None
      | Some rs \<Rightarrow> firstMatch rs (responseSelectors st))
   \<and> (100 \<le> st \<and> st < 1000 \<longrightarrow>
        responseSelectors st =
          [toString_nat st, digitChar (st div 100) # ''XX'', ''default''])
   \<and> (sv_valid (validateStatusCode st operation) \<longleftrightarrow>
        op_responses operation = None \<or> getResponseSpec st operation \<noteq> None)
   \<and> (\<forall>r. resp_status response = st \<and> getResponseSpec st operation = Some r \<longrightarrow>
        validateFullResponse ajv response operation =
          (let hv = validateResponseHeaders ajv (resp_headers response) r;
               bv = validateResponseBody ajv (resp_data response) r
           in fullResult (\<not> hv_valid hv \<or> \<not> bv_valid bv)
                ((if hv_valid hv then [] else map headerDetail (hv_errors hv))
                 @ (if bv_valid bv then []
                    else (case bv_details bv of Some d \<Rightarrow> d | None \<Rightarrow> [])))))"
proof (intro conjI)
  show "getResponseSpec st operation =
     (case op_responses operation of
        None \<Rightarrow> None
      | Some rs \<Rightarrow> firstMatch rs (responseSelectors st))"
    by (simp add: getResponseSpec_def responseSelectors_def Let_def split: option.splits)
  show "100 \<le> st \<and> st < 1000 \<longrightarrow>
        responseSelectors st =
          [toString_nat st, digitChar (st div 100) # ''XX'', ''default'']"
    by (simp add: responseSelectors_def wildcardKey_def toString_nat_three_digits)
  show "sv_valid (validateStatusCode st operation) \<longleftrightarrow>
        op_responses operation = None \<or> getResponseSpec st operation \<noteq> None"
    by (rule status_valid_iff)
  show "\<forall>r. resp_status response = st \<and> getResponseSpec st operation = Some r \<longrightarrow>
        validateFullResponse ajv response operation =
          (let hv = validateResponseHeaders ajv (resp_headers response) r;
               bv = validateResponseBody ajv (resp_data response) r
           in fullResult (\<not> hv_valid hv \<or> \<not> bv_valid bv)
                ((if hv_valid hv then [] else map headerDetail (hv_errors hv))
                 @ (if bv_valid bv then []
                    else (case bv_details bv of Some d \<Rightarrow> d | None \<Rightarrow> []))))"
    using validateFullResponse_matched by blast
qed

theorem getResponseSpec_priority_witness:
  "getResponseSpec 404 (opResponding tieredResponses) = Some (respNamed ''A'')
   \<and> getResponseSpec 403 (opResponding tieredResponses) = Some (respNamed ''B'')
   \<and> getResponseSpec 500 (opResponding tieredResponses) = Some (respNamed ''C'')
   \<and> (100::nat) \<le> 403 \<and> (403::nat) < 1000
   \<and> responseSelectors 403 = [''403'', ''4XX'', ''default'']
   \<and> fv_details (validateFullResponse nullRejectingAjv
          \<lparr>resp_status = 403, resp_headers = [], resp_data = JNull\<rparr>
          (opResponding tieredResponses))
       = Some [''Header '' @ [CHR 0x27] @ ''B'' @ [CHR 0x27] @ '': Required header is missing'']"
proof -
  have v: "fv_details (validateFullResponse nullRejectingAjv
          \<lparr>resp_status = 403, resp_headers = [], resp_data = JNull\<rparr>
          (opResponding tieredResponses))
       = Some [''Header '' @ [CHR 0x27] @ ''B'' @ [CHR 0x27] @ '': Required header is missing'']"
    by (simp add: validateFullResponse_def opResponding_def tieredResponses_def respNamed_def
          toString_nat.simps digitChar_def wildcardKey_def
          validateStatusCode_def getResponseSpec_def validateResponseHeaders_def headerStep_def
          validateResponseBody_def fullResult_def headerDetail_def Let_def)
  have s: "toString_nat 404 = ''404''" "toString_nat 403 = ''403''" "toString_nat 500 = ''500''"
    by (simp_all add: toString_nat.simps digitChar_def)
  show ?thesis
    using getResponseSpec_priority
            [where st = 404 and operation = "opResponding tieredResponses"
               and ajv = nullRejectingAjv
               and response = "\<lparr>resp_status = 404, resp_headers = [], resp_data = JNull\<rparr>"]
          getResponseSpec_priority
            [where st = 403 and operation = "opResponding tieredResponses"
               and ajv = nullRejectingAjv
               and response = "\<lparr>resp_status = 403, resp_headers = [], resp_data = JNull\<rparr>"]
          getResponseSpec_priority
            [where st = 500 and operation = "opResponding tieredResponses"
               and ajv = nullRejectingAjv
               and response = "\<lparr>resp_status = 500, resp_headers = [], resp_data = JNull\<rparr>"]
          v
    by (simp add: s digitChar_def opResponding_def responseSelectors_def wildcardKey_def
          tieredResponses_def respNamed_def)
qed

text \<open>
  Claim C3. The details that \<open>validateFullResponse\<close> returns are the status violations,
  then the header violations, then the body violations, all of them: a failed header
  check does not keep the body check from reporting, and the header and body checks are
  void only when no response spec matches, where the status violation is the whole set.
  The error summary is present exactly on failure. A passed verdict has no violation, and
  for an evaluator that reports at least one error with every rejected value the verdict
  is failed exactly when some check produced a violation.
\<close>

theorem validateFullResponse_accumulates:
  "fv_details (validateFullResponse ajv response operation) =
     (if statusViolations response operation @ headerViolations ajv response operation
           @ bodyViolations ajv response operation = []
      then None
      else Some (statusViolations response operation @ headerViolations ajv response operation
                 @ bodyViolations ajv response operation))
   \<and> fv_error (validateFullResponse ajv response operation) =
       (if fv_valid (validateFullResponse ajv response operation) then None
        else Some ''Response validation failed'')
   \<and> (fv_valid (validateFullResponse ajv response operation) \<longrightarrow>
        statusViolations response operation @ headerViolations ajv response operation
          @ bodyViolations ajv response operation = [])
   \<and> (reportsErrors ajv \<longrightarrow>
        (\<not> fv_valid (validateFullResponse ajv response operation) \<longleftrightarrow>
           statusViolations response operation @ headerViolations ajv response operation
             @ bodyViolations ajv response operation \<noteq> []))"
proof (cases "getResponseSpec (resp_status response) operation")
  case None
  then have hb: "headerViolations ajv response operation = []"
    "bodyViolations ajv response operation = []"
    by (simp_all add: headerViolations_def bodyViolations_def)
  show ?thesis
    by (simp add: validateFullResponse_unmatched [OF None] hb fullResult_sel)
next
  case (Some r)
  let ?hv = "validateResponseHeaders ajv (resp_headers response) r"
  let ?bv = "validateResponseBody ajv (resp_data response) r"
  have s: "statusViolations response operation = []"
    using Some by (simp add: status_violations_empty_iff status_valid_iff)
  have h: "headerViolations ajv response operation = map headerDetail (hv_errors ?hv)"
    by (simp add: headerViolations_def Some)
  have b: "bodyViolations ajv response operation =
             (case bv_details ?bv of None \<Rightarrow> [] | Some d \<Rightarrow> d)"
    by (simp add: bodyViolations_def Some)
  have bvalid: "bv_valid ?bv \<Longrightarrow> bodyViolations ajv response operation = []"
    by (simp add: b bv_valid_details)
  have binvalid: "bodyViolations ajv response operation \<noteq> []"
    if "\<not> bv_valid ?bv" "reportsErrors ajv"
  proof -
    from that(1) obtain sch errs where e: "ajv sch (resp_data response) = (False, Some errs)"
      and d: "bv_details ?bv = Some (map bodyDetail errs)"
      using bv_invalid_details by blast
    from that(2) e have "errs \<noteq> []" by (auto simp: reportsErrors_def)
    then show ?thesis by (simp add: b d)
  qed
  have r: "validateFullResponse ajv response operation =
      fullResult (\<not> hv_valid ?hv \<or> \<not> bv_valid ?bv)
        (headerViolations ajv response operation @ bodyViolations ajv response operation)"
    using bv_valid_details [of ajv "resp_data response" r]
    by (auto simp: validateFullResponse_matched [OF Some] Let_def h b hv_valid_iff
          split: option.splits)
  show ?thesis
    using bvalid binvalid
    by (auto simp: r s fullResult_sel h hv_valid_iff)
qed

theorem validateFullResponse_accumulates_witness:
  "reportsErrors nullRejectingAjv
   \<and> \<not> fv_valid (validateFullResponse nullRejectingAjv
          \<lparr>resp_status = 200, resp_headers = [], resp_data = JNull\<rparr>
          (opResponding [(''200'', rateLimited)]))
   \<and> fv_details (validateFullResponse nullRejectingAjv
          \<lparr>resp_status = 200, resp_headers = [], resp_data = JNull\<rparr>
          (opResponding [(''200'', rateLimited)]))
       = Some [''Header '' @ [CHR 0x27] @ ''X-Rate-Limit'' @ [CHR 0x27]
                 @ '': Required header is missing'',
               ''Body root: must be object'']"
proof -
  have a: "reportsErrors nullRejectingAjv"
    by (simp add: reportsErrors_def nullRejectingAjv_def)
  have s: "toString_nat 200 = ''200''" by (simp add: toString_nat.simps digitChar_def)
  have v: "validateFullResponse nullRejectingAjv
          \<lparr>resp_status = 200, resp_headers = [], resp_data = JNull\<rparr>
          (opResponding [(''200'', rateLimited)])
        = \<lparr>fv_valid = False, fv_error = Some ''Response validation failed'',
           fv_details = Some [''Header '' @ [CHR 0x27] @ ''X-Rate-Limit'' @ [CHR 0x27]
                 @ '': Required header is missing'',
               ''Body root: must be object'']\<rparr>"
    by (simp add: validateFullResponse_def opResponding_def rateLimited_def s
          validateStatusCode_def getResponseSpec_def validateResponseHeaders_def headerStep_def
          validateResponseBody_def nullRejectingAjv_def fullResult_def headerDetail_def
          bodyDetail_def Let_def)
  from validateFullResponse_accumulates
         [of nullRejectingAjv "\<lparr>resp_status = 200, resp_headers = [], resp_data = JNull\<rparr>"
             "opResponding [(''200'', rateLimited)]"] a v
  show ?thesis by simp
qed

text \<open>
  Claim C10. A declared response header is looked up in the received headers under its
  lowercased name and under no other key, so declarations whose names differ only in
  letter case read the same received header and get the same messages. For an evaluator
  whose messages are never the text \<open>Required header is missing\<close>, a declared required
  header is reported missing exactly when the received headers hold no value under the
  lowercase form of its name.
\<close>

theorem header_lookup_lowercase:
  "(map_of hdrs (toLowerCase n) = map_of hdrs' (toLowerCase n) \<longrightarrow>
      headerStep ajv hdrs (n, spec) = headerStep ajv hdrs' (n, spec))
   \<and> (toLowerCase n = toLowerCase n' \<longrightarrow>
        map hve_message (headerStep ajv hdrs (n, spec))
          = map hve_message (headerStep ajv hdrs (n', spec)))
   \<and> (neverSaysMissing ajv \<and> r_headers responseSpec = Some decls \<and> (n, spec) \<in> set decls
        \<and> h_required spec \<longrightarrow>
        (missingHeader n \<in> set (hv_errors (validateResponseHeaders ajv hdrs responseSpec))
           \<longleftrightarrow> map_of hdrs (toLowerCase n) = None))"
proof (intro conjI impI)
  assume "map_of hdrs (toLowerCase n) = map_of hdrs' (toLowerCase n)"
  then show "headerStep ajv hdrs (n, spec) = headerStep ajv hdrs' (n, spec)"
    by (rule headerStep_key)
next
  assume "toLowerCase n = toLowerCase n'"
  then show "map hve_message (headerStep ajv hdrs (n, spec))
          = map hve_message (headerStep ajv hdrs (n', spec))"
    by (rule headerStep_case_insensitive)
next
  assume a: "neverSaysMissing ajv \<and> r_headers responseSpec = Some decls \<and> (n, spec) \<in> set decls
        \<and> h_required spec"
  then have errs: "hv_errors (validateResponseHeaders ajv hdrs responseSpec)
      = concat (map (headerStep ajv hdrs) decls)"
    by (simp add: validateResponseHeaders_def Let_def)
  show "missingHeader n \<in> set (hv_errors (validateResponseHeaders ajv hdrs responseSpec))
           \<longleftrightarrow> map_of hdrs (toLowerCase n) = None"
  proof
    assume "missingHeader n \<in> set (hv_errors (validateResponseHeaders ajv hdrs responseSpec))"
    then obtain n' spec' where "missingHeader n \<in> set (headerStep ajv hdrs (n', spec'))"
      by (auto simp: errs)
    with a headerStep_missing_only show "map_of hdrs (toLowerCase n) = None" by blast
  next
    assume "map_of hdrs (toLowerCase n) = None"
    with a have "headerStep ajv hdrs (n, spec) = [missingHeader n]"
      by (intro headerStep_missing) auto
    with a show "missingHeader n \<in> set (hv_errors (validateResponseHeaders ajv hdrs responseSpec))"
      by (force simp: errs)
  qed
qed

theorem header_lookup_lowercase_witness:
  "neverSaysMissing nullRejectingAjv
   \<and> r_headers rateLimited = Some [(''X-Rate-Limit'', \<lparr>h_required = True, h_schema = Some anySchema\<rparr>)]
   \<and> h_required \<lparr>h_required = True, h_schema = Some anySchema\<rparr>
   \<and> toLowerCase ''X-Rate-Limit'' = ''x-rate-limit''
   \<and> toLowerCase ''X-RATE-LIMIT'' = toLowerCase ''X-Rate-Limit''
   \<and> missingHeader ''X-Rate-Limit''
        \<in> set (hv_errors (validateResponseHeaders nullRejectingAjv [(''X-Rate-Limit'', JNum 5)] rateLimited))
   \<and> missingHeader ''X-Rate-Limit''
        \<notin> set (hv_errors (validateResponseHeaders nullRejectingAjv [(''x-rate-limit'', JNum 5)] rateLimited))"
proof -
  let ?spec = "\<lparr>h_required = True, h_schema = Some anySchema\<rparr>"
  have a: "neverSaysMissing nullRejectingAjv"
    by (auto simp: neverSaysMissing_def nullRejectingAjv_def split: if_splits)
  have d: "r_headers rateLimited = Some [(''X-Rate-Limit'', ?spec)]"
    by (simp add: rateLimited_def)
  have m: "(''X-Rate-Limit'', ?spec) \<in> set [(''X-Rate-Limit'', ?spec)]" by simp
  have r: "h_required ?spec" by simp
  have l: "toLowerCase ''X-Rate-Limit'' = ''x-rate-limit''"
    "toLowerCase ''X-RATE-LIMIT'' = ''x-rate-limit''"
    by (simp_all add: toLowerCase_def lowerChar_def)
  have absent: "map_of [(''X-Rate-Limit'', JNum 5)] (toLowerCase ''X-Rate-Limit'') = None"
    and present: "map_of [(''x-rate-limit'', JNum 5)] (toLowerCase ''X-Rate-Limit'') \<noteq> None"
    by (simp_all add: l)
  from header_lookup_lowercase
         [where hdrs = "[(''X-Rate-Limit'', JNum 5)]" and n = "''X-Rate-Limit''"
            and hdrs' = "[]" and ajv = nullRejectingAjv and spec = ?spec
            and n' = "''X-RATE-LIMIT''" and responseSpec = rateLimited
            and decls = "[(''X-Rate-Limit'', ?spec)]"]
       header_lookup_lowercase
         [where hdrs = "[(''x-rate-limit'', JNum 5)]" and n = "''X-Rate-Limit''"
            and hdrs' = "[]" and ajv = nullRejectingAjv and spec = ?spec
            and n' = "''X-RATE-LIMIT''" and responseSpec = rateLimited
            and decls = "[(''X-Rate-Limit'', ?spec)]"]
       a d m r absent present l
  show ?thesis by simp
qed

section \<open>Endpoint runner and contract walker\<close>



text \<open>
  Claim C9, as stated, fails: the request headers start from the caller-supplied ones,
  so a \<open>GET\<close> for an operation that declares a request body carries a \<open>Content-Type\<close>
  header when the caller supplied one.
\<close>

theorem get_with_caller_content_type_counterexample:
  "buildRequestBody bodyOp \<noteq> None
   \<and> map_of (rc_headers (requestConfig (callerWith [(''Content-Type'', ''text/plain'')])
                ''/users'' ''get'' bodyOp (plainItem [])))
        ''Content-Type'' = Some ''text/plain''"
  by (simp add: requestConfig_def callerWith_def bodyOp_def plainItem_def buildRequestBody_def
        buildQueryParams_def allParameters_def orEmpty_def extractBodyExample_def Let_def)

text \<open>
  Claim C9, amended. For every method other than \<open>post\<close>, \<open>put\<close> and \<open>patch\<close> (so for
  \<open>get\<close> and \<open>delete\<close>) the request has no body and its headers are the caller-supplied
  ones with \<open>Accept: application/json\<close>: it has a \<open>Content-Type\<close> header only if the caller
  supplied one. For \<open>post\<close>, \<open>put\<close> and \<open>patch\<close> a built request body is attached together
  with its content type. The transport is called once, with this request, unless the
  endpoint is skipped.
\<close>

theorem request_body_methods:
  "(meth \<notin> set [''post'', ''put'', ''patch''] \<longrightarrow>
      rc_data (requestConfig this rpath meth operation pathItem) = None
      \<and> rc_headers (requestConfig this rpath meth operation pathItem)
          = setProperty (headers this) (''Accept'', ''application/json'')
      \<and> map_of (rc_headers (requestConfig this rpath meth operation pathItem)) ''Content-Type''
          = map_of (headers this) ''Content-Type'')
   \<and> (meth \<in> set [''post'', ''put'', ''patch''] \<longrightarrow>
        (\<forall>rbd. buildRequestBody operation = Some rbd \<longrightarrow>
           rc_data (requestConfig this rpath meth operation pathItem) = Some (rbd_body rbd)
           \<and> map_of (rc_headers (requestConfig this rpath meth operation pathItem)) ''Content-Type''
               = Some (rbd_contentType rbd))
        \<and> (buildRequestBody operation = None \<longrightarrow>
             rc_data (requestConfig this rpath meth operation pathItem) = None
             \<and> rc_headers (requestConfig this rpath meth operation pathItem)
                 = setProperty (headers this) (''Accept'', ''application/json'')))
   \<and> snd (testEndpoint this ajv now axios pth meth operation pathItem w)
       = (if skipped (resolvePath pth operation pathItem) then w
          else snd (axios (requestConfig this (resolvedPath (resolvePath pth operation pathItem))
                             meth operation pathItem) w))"
proof (intro conjI impI allI)
  assume "meth \<notin> set [''post'', ''put'', ''patch'']"
  then have c: "requestConfig this rpath meth operation pathItem =
     \<lparr>rc_method = meth, rc_url = baseUrl this @ rpath,
      rc_headers = setProperty (headers this) (''Accept'', ''application/json''),
      rc_params = (if length (buildQueryParams operation pathItem) > 0
                   then Some (buildQueryParams operation pathItem) else None),
      rc_timeout = timeout this, rc_data = None\<rparr>"
    by (simp add: requestConfig_def Let_def split: option.splits)
  show "rc_data (requestConfig this rpath meth operation pathItem) = None" by (simp add: c)
  show "rc_headers (requestConfig this rpath meth operation pathItem)
          = setProperty (headers this) (''Accept'', ''application/json'')" by (simp add: c)
  show "map_of (rc_headers (requestConfig this rpath meth operation pathItem)) ''Content-Type''
          = map_of (headers this) ''Content-Type''"
    by (simp add: c map_of_setProperty)
next
  fix rbd
  assume "meth \<in> set [''post'', ''put'', ''patch'']" "buildRequestBody operation = Some rbd"
  then show "rc_data (requestConfig this rpath meth operation pathItem) = Some (rbd_body rbd)"
    and "map_of (rc_headers (requestConfig this rpath meth operation pathItem)) ''Content-Type''
               = Some (rbd_contentType rbd)"
    by (auto simp: requestConfig_def Let_def map_of_setProperty)
next
  assume "meth \<in> set [''post'', ''put'', ''patch'']" "buildRequestBody operation = None"
  then show "rc_data (requestConfig this rpath meth operation pathItem) = None"
   and "rc_headers (requestConfig this rpath meth operation pathItem)
                 = setProperty (headers this) (''Accept'', ''application/json'')"
    by (auto simp: requestConfig_def Let_def)
next
  show "snd (testEndpoint this ajv now axios pth meth operation pathItem w)
       = (if skipped (resolvePath pth operation pathItem) then w
          else snd (axios (requestConfig this (resolvedPath (resolvePath pth operation pathItem))
                             meth operation pathItem) w))"
    by (simp add: testEndpoint_def Let_def split: prod.splits sum.splits thrown.splits)
qed

theorem request_body_methods_witness:
  "''get'' \<notin> set [''post'', ''put'', ''patch''] \<and> ''post'' \<in> set [''post'', ''put'', ''patch'']
   \<and> buildRequestBody bodyOp
       = Some \<lparr>rbd_body = JObj [(''name'', JStr ''Test User'')], rbd_contentType = ''application/json''\<rparr>
   \<and> rc_data (requestConfig (callerWith []) ''/users'' ''get'' bodyOp (plainItem [])) = None
   \<and> rc_headers (requestConfig (callerWith []) ''/users'' ''get'' bodyOp (plainItem []))
       = [(''Accept'', ''application/json'')]
   \<and> rc_data (requestConfig (callerWith []) ''/users'' ''post'' bodyOp (plainItem []))
       = Some (JObj [(''name'', JStr ''Test User'')])
   \<and> map_of (rc_headers (requestConfig (callerWith []) ''/users'' ''post'' bodyOp (plainItem [])))
        ''Content-Type'' = Some ''application/json''"
proof -
  have g: "''get'' \<notin> set [''post'', ''put'', ''patch'']"
    and p: "''post'' \<in> set [''post'', ''put'', ''patch'']" by simp_all
  have b: "buildRequestBody bodyOp
       = Some \<lparr>rbd_body = JObj [(''name'', JStr ''Test User'')], rbd_contentType = ''application/json''\<rparr>"
    by (simp add: buildRequestBody_def bodyOp_def extractBodyExample_def)
  have h: "headers (callerWith []) = []" by (simp add: callerWith_def)
  from request_body_methods
         [where meth = "''get''" and this = "callerWith []" and rpath = "''/users''"
            and operation = bodyOp and pathItem = "plainItem []" and ajv = nullRejectingAjv
            and now = int and axios = refusing and pth = "''/users''" and w = 0]
       request_body_methods
         [where meth = "''post''" and this = "callerWith []" and rpath = "''/users''"
            and operation = bodyOp and pathItem = "plainItem []" and ajv = nullRejectingAjv
            and now = int and axios = refusing and pth = "''/users''" and w = 0]
       g p b h
  show ?thesis by simp
qed




end
